theory Spec2Isabelle
  imports Main
begin

section \<open>Milvus client configuration: connection config and index parameter configs\<close>

text \<open>
  The development embeds \<^verbatim>\<open>vectordb_bench/backend/clients/milvus/config.py\<close>.
  The classes are pydantic (version 1) models: a class body lists typed fields, some
  with defaults, and calling the class validates keyword arguments against them.
  Instances are records, inheritance is record extension, methods are functions of
  the instance, and every exception the code can raise is a value of \<open>error\<close>.
\<close>

subsection \<open>Enumerations\<close>

text \<open>
  Modelled from the spec: the enumerations \<^verbatim>\<open>IndexType\<close> and \<^verbatim>\<open>MetricType\<close> are
  declared in \<^verbatim>\<open>..api\<close>, which is not part of the embedded sources. The members
  below are the ones \<^verbatim>\<open>config.py\<close> names; \<open>OtherIndexType\<close> stands for any
  further member of the index enumeration (the spec's registry lookup can meet a
  family that is not registered). The spec gives the wire strings \<open>GPU_IVF_FLAT\<close>,
  \<open>Flat\<close>, \<open>L2\<close> and \<open>COSINE\<close>, each equal to the member's name; the other members
  follow the same rule. Both enumerations mix in \<^verbatim>\<open>str\<close>: a member is truthy
  when its wire string is non-empty and compares equal to a plain string exactly when
  the string is its wire string, which is what lets the spec's cosine rule reach a
  metric held as a plain string.
\<close>

datatype IndexType =
    AUTOINDEX | HNSW | DISKANN | IVFFlat | IVFSQ8 | Flat
  | GPU_IVF_FLAT | GPU_IVF_PQ | GPU_CAGRA | GPU_BRUTE_FORCE
  | OtherIndexType string

fun IndexType_value :: "IndexType \<Rightarrow> string" where
  "IndexType_value AUTOINDEX = ''AUTOINDEX''"
| "IndexType_value HNSW = ''HNSW''"
| "IndexType_value DISKANN = ''DISKANN''"
| "IndexType_value IVFFlat = ''IVFFlat''"
| "IndexType_value IVFSQ8 = ''IVFSQ8''"
| "IndexType_value Flat = ''Flat''"
| "IndexType_value GPU_IVF_FLAT = ''GPU_IVF_FLAT''"
| "IndexType_value GPU_IVF_PQ = ''GPU_IVF_PQ''"
| "IndexType_value GPU_CAGRA = ''GPU_CAGRA''"
| "IndexType_value GPU_BRUTE_FORCE = ''GPU_BRUTE_FORCE''"
| "IndexType_value (OtherIndexType s) = s"

datatype MetricType = L2 | IP | COSINE

fun MetricType_value :: "MetricType \<Rightarrow> string" where
  "MetricType_value L2 = ''L2''"
| "MetricType_value IP = ''IP''"
| "MetricType_value COSINE = ''COSINE''"

subsection \<open>Python values and errors\<close>

text \<open>
  \<open>pyfloat\<close> is the type of Python floats. The code stores and returns them and never
  computes with them, so the type is left uninterpreted.
\<close>

typedecl pyfloat

text \<open>
  The values that occur in the rendered payloads. A \<^verbatim>\<open>dict\<close> is an association
  list in insertion order, which is the order Python keeps; two equal lists are equal
  dictionaries.
\<close>

datatype pyval =
    PNone
  | PStr string
  | PInt int
  | PFloat pyfloat
  | PDict "(string \<times> pyval) list"

type_synonym pydict = "(string \<times> pyval) list"

fun opt_int :: "int option \<Rightarrow> pyval" where
  "opt_int None = PNone"
| "opt_int (Some n) = PInt n"

fun opt_float :: "pyfloat option \<Rightarrow> pyval" where
  "opt_float None = PNone"
| "opt_float (Some x) = PFloat x"

text \<open>
  What pydantic reports for one field, and the exceptions of the module.
  \<open>MissingError\<close> is pydantic's \<^verbatim>\<open>value_error.missing\<close> (the spec's
  MissingRequiredField kind), \<open>ValueError\<close> is what a class validator raises (the
  spec's ValidationError kind). pydantic validates every field and raises one
  \<^verbatim>\<open>ValidationError\<close> that lists the failures in field order.
\<close>

datatype field_error =
    MissingError
  | NoneIsNotAllowedError
  | EnumMemberError
  | ValueError string

datatype error =
    ValidationError "(string \<times> field_error) list"
  | AttributeError string
  | NotSupported

subsection \<open>The base class \<^verbatim>\<open>MilvusIndexConfig\<close>\<close>

text \<open>
  The value held by the attribute \<^verbatim>\<open>metric_type\<close>. The base class declares it
  \<^verbatim>\<open>MetricType | None\<close>; \<^verbatim>\<open>GPUBruteForceConfig\<close> redeclares it \<^verbatim>\<open>str\<close>, so an
  instance of that class holds a plain string.
\<close>

datatype metric_val = MetricNone | MetricEnum MetricType | MetricStr string

record MilvusIndexConfig =
  index :: IndexType
  metric_type :: metric_val

text \<open>\<^verbatim>\<open>not self.metric_type\<close> is the negation of this.\<close>

fun metric_truthy :: "metric_val \<Rightarrow> bool" where
  "metric_truthy MetricNone = False"
| "metric_truthy (MetricEnum m) = (MetricType_value m \<noteq> [])"
| "metric_truthy (MetricStr s) = (s \<noteq> [])"

text \<open>\<^verbatim>\<open>self.metric_type == MetricType.X\<close>.\<close>

fun metric_eq :: "metric_val \<Rightarrow> MetricType \<Rightarrow> bool" where
  "metric_eq MetricNone t = False"
| "metric_eq (MetricEnum m) t = (m = t)"
| "metric_eq (MetricStr s) t = (s = MetricType_value t)"

text \<open>\<^verbatim>\<open>self.metric_type.value\<close>: only an enumeration member has the attribute.\<close>

fun metric_dot_value :: "metric_val \<Rightarrow> error + string" where
  "metric_dot_value MetricNone = Inl (AttributeError ''value'')"
| "metric_dot_value (MetricEnum m) = Inr (MetricType_value m)"
| "metric_dot_value (MetricStr s) = Inl (AttributeError ''value'')"

definition is_gpu_index :: "'a MilvusIndexConfig_scheme \<Rightarrow> bool" where
  "is_gpu_index self =
     (index self \<in> set [GPU_CAGRA, GPU_IVF_FLAT, GPU_IVF_PQ, GPU_BRUTE_FORCE])"

definition parse_metric :: "'a MilvusIndexConfig_scheme \<Rightarrow> error + string" where
  "parse_metric self =
     (if \<not> metric_truthy (metric_type self) then Inr ''''
      else if is_gpu_index self \<and> metric_eq (metric_type self) COSINE
        then Inr (MetricType_value L2)
      else metric_dot_value (metric_type self))"

text \<open>
  Every payload starts with \<^verbatim>\<open>self.parse_metric()\<close>; an exception raised there
  leaves the method.
\<close>

definition with_metric ::
  "'a MilvusIndexConfig_scheme \<Rightarrow> (string \<Rightarrow> pydict) \<Rightarrow> error + pydict" where
  "with_metric self body =
     (case parse_metric self of Inl e \<Rightarrow> Inl e | Inr mt \<Rightarrow> Inr (body mt))"

subsection \<open>The variants\<close>

type_synonym AutoIndexConfig = MilvusIndexConfig

definition AutoIndexConfig_index_param :: "AutoIndexConfig \<Rightarrow> error + pydict" where
  "AutoIndexConfig_index_param self = with_metric self (\<lambda>mt.
     [(''metric_type'', PStr mt),
      (''index_type'', PStr (IndexType_value (index self))),
      (''params'', PDict [])])"

definition AutoIndexConfig_search_param :: "AutoIndexConfig \<Rightarrow> error + pydict" where
  "AutoIndexConfig_search_param self = with_metric self (\<lambda>mt.
     [(''metric_type'', PStr mt)])"

record HNSWConfig = MilvusIndexConfig +
  M :: int
  efConstruction :: int
  ef :: "int option"

definition HNSWConfig_index_param :: "HNSWConfig \<Rightarrow> error + pydict" where
  "HNSWConfig_index_param self = with_metric self (\<lambda>mt.
     [(''metric_type'', PStr mt),
      (''index_type'', PStr (IndexType_value (index self))),
      (''params'', PDict [(''M'', PInt (M self)),
                          (''efConstruction'', PInt (efConstruction self))])])"

definition HNSWConfig_search_param :: "HNSWConfig \<Rightarrow> error + pydict" where
  "HNSWConfig_search_param self = with_metric self (\<lambda>mt.
     [(''metric_type'', PStr mt),
      (''params'', PDict [(''ef'', opt_int (ef self))])])"

record DISKANNConfig = MilvusIndexConfig +
  search_list :: "int option"

definition DISKANNConfig_index_param :: "DISKANNConfig \<Rightarrow> error + pydict" where
  "DISKANNConfig_index_param self = with_metric self (\<lambda>mt.
     [(''metric_type'', PStr mt),
      (''index_type'', PStr (IndexType_value (index self))),
      (''params'', PDict [])])"

definition DISKANNConfig_search_param :: "DISKANNConfig \<Rightarrow> error + pydict" where
  "DISKANNConfig_search_param self = with_metric self (\<lambda>mt.
     [(''metric_type'', PStr mt),
      (''params'', PDict [(''search_list'', opt_int (search_list self))])])"

record IVFFlatConfig = MilvusIndexConfig +
  nlist :: int
  nprobe :: "int option"

definition IVFFlatConfig_index_param :: "IVFFlatConfig \<Rightarrow> error + pydict" where
  "IVFFlatConfig_index_param self = with_metric self (\<lambda>mt.
     [(''metric_type'', PStr mt),
      (''index_type'', PStr (IndexType_value (index self))),
      (''params'', PDict [(''nlist'', PInt (IVFFlatConfig.nlist self))])])"

definition IVFFlatConfig_search_param :: "IVFFlatConfig \<Rightarrow> error + pydict" where
  "IVFFlatConfig_search_param self = with_metric self (\<lambda>mt.
     [(''metric_type'', PStr mt),
      (''params'', PDict [(''nprobe'', opt_int (IVFFlatConfig.nprobe self))])])"

record IVFSQ8Config = MilvusIndexConfig +
  nlist :: int
  nprobe :: "int option"

definition IVFSQ8Config_index_param :: "IVFSQ8Config \<Rightarrow> error + pydict" where
  "IVFSQ8Config_index_param self = with_metric self (\<lambda>mt.
     [(''metric_type'', PStr mt),
      (''index_type'', PStr (IndexType_value (index self))),
      (''params'', PDict [(''nlist'', PInt (IVFSQ8Config.nlist self))])])"

definition IVFSQ8Config_search_param :: "IVFSQ8Config \<Rightarrow> error + pydict" where
  "IVFSQ8Config_search_param self = with_metric self (\<lambda>mt.
     [(''metric_type'', PStr mt),
      (''params'', PDict [(''nprobe'', opt_int (IVFSQ8Config.nprobe self))])])"

type_synonym FLATConfig = MilvusIndexConfig

definition FLATConfig_index_param :: "FLATConfig \<Rightarrow> error + pydict" where
  "FLATConfig_index_param self = with_metric self (\<lambda>mt.
     [(''metric_type'', PStr mt),
      (''index_type'', PStr (IndexType_value (index self))),
      (''params'', PDict [])])"

definition FLATConfig_search_param :: "FLATConfig \<Rightarrow> error + pydict" where
  "FLATConfig_search_param self = with_metric self (\<lambda>mt.
     [(''metric_type'', PStr mt),
      (''params'', PDict [])])"

record GPUIVFFlatConfig = MilvusIndexConfig +
  nlist :: int
  nprobe :: int
  cache_dataset_on_device :: string
  refine_ratio :: "pyfloat option"

definition GPUIVFFlatConfig_index_param :: "GPUIVFFlatConfig \<Rightarrow> error + pydict" where
  "GPUIVFFlatConfig_index_param self = with_metric self (\<lambda>mt.
     [(''metric_type'', PStr mt),
      (''index_type'', PStr (IndexType_value (index self))),
      (''params'', PDict
         [(''nlist'', PInt (GPUIVFFlatConfig.nlist self)),
          (''cache_dataset_on_device'',
             PStr (GPUIVFFlatConfig.cache_dataset_on_device self))])])"

definition GPUIVFFlatConfig_search_param :: "GPUIVFFlatConfig \<Rightarrow> error + pydict" where
  "GPUIVFFlatConfig_search_param self = with_metric self (\<lambda>mt.
     [(''metric_type'', PStr mt),
      (''params'', PDict
         [(''nprobe'', PInt (GPUIVFFlatConfig.nprobe self)),
          (''refine_ratio'', opt_float (GPUIVFFlatConfig.refine_ratio self))])])"

record GPUBruteForceConfig = MilvusIndexConfig +
  limit :: int

definition GPUBruteForceConfig_index_param :: "GPUBruteForceConfig \<Rightarrow> error + pydict" where
  "GPUBruteForceConfig_index_param self = with_metric self (\<lambda>mt.
     [(''metric_type'', PStr mt),
      (''index_type'', PStr (IndexType_value (index self))),
      (''params'', PDict [])])"

definition GPUBruteForceConfig_search_param :: "GPUBruteForceConfig \<Rightarrow> error + pydict" where
  "GPUBruteForceConfig_search_param self = with_metric self (\<lambda>mt.
     [(''metric_type'', PStr mt),
      (''params'', PDict [(''nprobe'', PInt 1),
                          (''limit'', PInt (limit self))])])"

record GPUIVFPQConfig = MilvusIndexConfig +
  nlist :: int
  m :: int
  nbits :: int
  nprobe :: int
  refine_ratio :: "pyfloat option"
  cache_dataset_on_device :: string

definition GPUIVFPQConfig_index_param :: "GPUIVFPQConfig \<Rightarrow> error + pydict" where
  "GPUIVFPQConfig_index_param self = with_metric self (\<lambda>mt.
     [(''metric_type'', PStr mt),
      (''index_type'', PStr (IndexType_value (index self))),
      (''params'', PDict
         [(''nlist'', PInt (GPUIVFPQConfig.nlist self)),
          (''m'', PInt (m self)),
          (''nbits'', PInt (nbits self)),
          (''cache_dataset_on_device'',
             PStr (GPUIVFPQConfig.cache_dataset_on_device self))])])"

definition GPUIVFPQConfig_search_param :: "GPUIVFPQConfig \<Rightarrow> error + pydict" where
  "GPUIVFPQConfig_search_param self = with_metric self (\<lambda>mt.
     [(''metric_type'', PStr mt),
      (''params'', PDict
         [(''nprobe'', PInt (GPUIVFPQConfig.nprobe self)),
          (''refine_ratio'', opt_float (GPUIVFPQConfig.refine_ratio self))])])"

record GPUCAGRAConfig = MilvusIndexConfig +
  intermediate_graph_degree :: int
  graph_degree :: int
  itopk_size :: int
  team_size :: int
  search_width :: int
  min_iterations :: int
  max_iterations :: int
  build_algo :: string
  cache_dataset_on_device :: string
  refine_ratio :: "pyfloat option"

definition GPUCAGRAConfig_index_param :: "GPUCAGRAConfig \<Rightarrow> error + pydict" where
  "GPUCAGRAConfig_index_param self = with_metric self (\<lambda>mt.
     [(''metric_type'', PStr mt),
      (''index_type'', PStr (IndexType_value (index self))),
      (''params'', PDict
         [(''intermediate_graph_degree'', PInt (intermediate_graph_degree self)),
          (''graph_degree'', PInt (graph_degree self)),
          (''build_algo'', PStr (build_algo self)),
          (''cache_dataset_on_device'',
             PStr (GPUCAGRAConfig.cache_dataset_on_device self))])])"

definition GPUCAGRAConfig_search_param :: "GPUCAGRAConfig \<Rightarrow> error + pydict" where
  "GPUCAGRAConfig_search_param self = with_metric self (\<lambda>mt.
     [(''metric_type'', PStr mt),
      (''params'', PDict
         [(''team_size'', PInt (team_size self)),
          (''search_width'', PInt (search_width self)),
          (''itopk_size'', PInt (itopk_size self)),
          (''min_iterations'', PInt (min_iterations self)),
          (''max_iterations'', PInt (max_iterations self)),
          (''refine_ratio'', opt_float (GPUCAGRAConfig.refine_ratio self))])])"

subsection \<open>Dispatch over the variants\<close>

text \<open>
  An instance of one of the ten classes, and the three methods every class offers,
  resolved on the instance's class as Python resolves them.
\<close>

datatype DBCaseConfig =
    An_AutoIndexConfig AutoIndexConfig
  | An_HNSWConfig HNSWConfig
  | A_DISKANNConfig DISKANNConfig
  | An_IVFFlatConfig IVFFlatConfig
  | An_IVFSQ8Config IVFSQ8Config
  | A_FLATConfig FLATConfig
  | A_GPUIVFFlatConfig GPUIVFFlatConfig
  | A_GPUIVFPQConfig GPUIVFPQConfig
  | A_GPUCAGRAConfig GPUCAGRAConfig
  | A_GPUBruteForceConfig GPUBruteForceConfig

text \<open>The two attributes of the base class, read off an instance of any class.\<close>

fun index_of :: "DBCaseConfig \<Rightarrow> IndexType" where
  "index_of (An_AutoIndexConfig c) = index c"
| "index_of (An_HNSWConfig c) = index c"
| "index_of (A_DISKANNConfig c) = index c"
| "index_of (An_IVFFlatConfig c) = index c"
| "index_of (An_IVFSQ8Config c) = index c"
| "index_of (A_FLATConfig c) = index c"
| "index_of (A_GPUIVFFlatConfig c) = index c"
| "index_of (A_GPUIVFPQConfig c) = index c"
| "index_of (A_GPUCAGRAConfig c) = index c"
| "index_of (A_GPUBruteForceConfig c) = index c"

fun metric_type_of :: "DBCaseConfig \<Rightarrow> metric_val" where
  "metric_type_of (An_AutoIndexConfig c) = metric_type c"
| "metric_type_of (An_HNSWConfig c) = metric_type c"
| "metric_type_of (A_DISKANNConfig c) = metric_type c"
| "metric_type_of (An_IVFFlatConfig c) = metric_type c"
| "metric_type_of (An_IVFSQ8Config c) = metric_type c"
| "metric_type_of (A_FLATConfig c) = metric_type c"
| "metric_type_of (A_GPUIVFFlatConfig c) = metric_type c"
| "metric_type_of (A_GPUIVFPQConfig c) = metric_type c"
| "metric_type_of (A_GPUCAGRAConfig c) = metric_type c"
| "metric_type_of (A_GPUBruteForceConfig c) = metric_type c"

fun DBCaseConfig_parse_metric :: "DBCaseConfig \<Rightarrow> error + string" where
  "DBCaseConfig_parse_metric (An_AutoIndexConfig c) = parse_metric c"
| "DBCaseConfig_parse_metric (An_HNSWConfig c) = parse_metric c"
| "DBCaseConfig_parse_metric (A_DISKANNConfig c) = parse_metric c"
| "DBCaseConfig_parse_metric (An_IVFFlatConfig c) = parse_metric c"
| "DBCaseConfig_parse_metric (An_IVFSQ8Config c) = parse_metric c"
| "DBCaseConfig_parse_metric (A_FLATConfig c) = parse_metric c"
| "DBCaseConfig_parse_metric (A_GPUIVFFlatConfig c) = parse_metric c"
| "DBCaseConfig_parse_metric (A_GPUIVFPQConfig c) = parse_metric c"
| "DBCaseConfig_parse_metric (A_GPUCAGRAConfig c) = parse_metric c"
| "DBCaseConfig_parse_metric (A_GPUBruteForceConfig c) = parse_metric c"

fun index_param :: "DBCaseConfig \<Rightarrow> error + pydict" where
  "index_param (An_AutoIndexConfig c) = AutoIndexConfig_index_param c"
| "index_param (An_HNSWConfig c) = HNSWConfig_index_param c"
| "index_param (A_DISKANNConfig c) = DISKANNConfig_index_param c"
| "index_param (An_IVFFlatConfig c) = IVFFlatConfig_index_param c"
| "index_param (An_IVFSQ8Config c) = IVFSQ8Config_index_param c"
| "index_param (A_FLATConfig c) = FLATConfig_index_param c"
| "index_param (A_GPUIVFFlatConfig c) = GPUIVFFlatConfig_index_param c"
| "index_param (A_GPUIVFPQConfig c) = GPUIVFPQConfig_index_param c"
| "index_param (A_GPUCAGRAConfig c) = GPUCAGRAConfig_index_param c"
| "index_param (A_GPUBruteForceConfig c) = GPUBruteForceConfig_index_param c"

fun search_param :: "DBCaseConfig \<Rightarrow> error + pydict" where
  "search_param (An_AutoIndexConfig c) = AutoIndexConfig_search_param c"
| "search_param (An_HNSWConfig c) = HNSWConfig_search_param c"
| "search_param (A_DISKANNConfig c) = DISKANNConfig_search_param c"
| "search_param (An_IVFFlatConfig c) = IVFFlatConfig_search_param c"
| "search_param (An_IVFSQ8Config c) = IVFSQ8Config_search_param c"
| "search_param (A_FLATConfig c) = FLATConfig_search_param c"
| "search_param (A_GPUIVFFlatConfig c) = GPUIVFFlatConfig_search_param c"
| "search_param (A_GPUIVFPQConfig c) = GPUIVFPQConfig_search_param c"
| "search_param (A_GPUCAGRAConfig c) = GPUCAGRAConfig_search_param c"
| "search_param (A_GPUBruteForceConfig c) = GPUBruteForceConfig_search_param c"

subsection \<open>Reading a payload\<close>

fun is_AutoIndexConfig :: "DBCaseConfig \<Rightarrow> bool" where
  "is_AutoIndexConfig (An_AutoIndexConfig c) = True"
| "is_AutoIndexConfig c = False"

text \<open>\<^verbatim>\<open>d["params"]\<close>, when the payload has that key and a mapping under it.\<close>

definition params_of :: "pydict \<Rightarrow> pydict option" where
  "params_of d = (case map_of d ''params'' of Some (PDict ps) \<Rightarrow> Some ps | _ \<Rightarrow> None)"

text \<open>
  The spec's catalogue of knobs (its table of variants), each knob under the key the
  payloads use: the build-time column and the query-time column.
\<close>

definition build_time_knobs :: "string list" where
  "build_time_knobs =
     [''M'', ''efConstruction'', ''nlist'', ''cache_dataset_on_device'', ''m'', ''nbits'',
      ''intermediate_graph_degree'', ''graph_degree'', ''build_algo'']"

definition query_time_knobs :: "string list" where
  "query_time_knobs =
     [''ef'', ''search_list'', ''nprobe'', ''refine_ratio'', ''team_size'',
      ''search_width'', ''itopk_size'', ''min_iterations'', ''max_iterations'', ''limit'']"

subsection \<open>Construction: keyword arguments and field validation\<close>

text \<open>
  Calling a model class validates the keyword arguments field by field, inherited
  fields first, then the class's own in the order of the class body. A keyword is
  left out, passed as \<^verbatim>\<open>None\<close>, or passed with a value of the field's type
  (arguments of another type, which pydantic coerces or rejects, are outside the
  model).
\<close>

datatype 'a arg = Omitted | PassedNone | Passed 'a

text \<open>A field declared \<^verbatim>\<open>name: T\<close>, with no default.\<close>

fun required :: "'a arg \<Rightarrow> field_error + 'a" where
  "required Omitted = Inl MissingError"
| "required PassedNone = Inl NoneIsNotAllowedError"
| "required (Passed v) = Inr v"

text \<open>A field declared \<^verbatim>\<open>name: T = d\<close>.\<close>

fun defaulted :: "'a \<Rightarrow> 'a arg \<Rightarrow> field_error + 'a" where
  "defaulted d Omitted = Inr d"
| "defaulted d PassedNone = Inl NoneIsNotAllowedError"
| "defaulted d (Passed v) = Inr v"

text \<open>A field declared \<^verbatim>\<open>name: T | None = None\<close>.\<close>

fun optional :: "'a arg \<Rightarrow> field_error + 'a option" where
  "optional Omitted = Inr None"
| "optional PassedNone = Inr None"
| "optional (Passed v) = Inr (Some v)"

text \<open>
  A metric is passed as an enumeration member or as a string. A field of type
  \<^verbatim>\<open>MetricType | None\<close> looks a string up among the members' wire strings; a
  field of type \<^verbatim>\<open>str\<close> takes the wire string of a member.
\<close>

datatype metric_arg = Member MetricType | Str string

definition MetricType_of_value :: "string \<Rightarrow> MetricType option" where
  "MetricType_of_value s =
     (if s = MetricType_value L2 then Some L2
      else if s = MetricType_value IP then Some IP
      else if s = MetricType_value COSINE then Some COSINE
      else None)"

fun metric_type_field :: "metric_arg arg \<Rightarrow> field_error + metric_val" where
  "metric_type_field Omitted = Inr MetricNone"
| "metric_type_field PassedNone = Inr MetricNone"
| "metric_type_field (Passed (Member t)) = Inr (MetricEnum t)"
| "metric_type_field (Passed (Str s)) =
     (case MetricType_of_value s of
        None \<Rightarrow> Inl EnumMemberError
      | Some t \<Rightarrow> Inr (MetricEnum t))"

fun metric_type_str_field :: "metric_arg arg \<Rightarrow> field_error + metric_val" where
  "metric_type_str_field Omitted = Inl MissingError"
| "metric_type_str_field PassedNone = Inl NoneIsNotAllowedError"
| "metric_type_str_field (Passed (Member t)) = Inr (MetricStr (MetricType_value t))"
| "metric_type_str_field (Passed (Str s)) = Inr (MetricStr s)"

text \<open>
  One step of the validation loop: the fields validated so far (the instance under
  construction, still waiting for its remaining fields, or the failures collected),
  then the next field. \<open>finish\<close> raises the collected failures, if any.
\<close>

fun field ::
  "(string \<times> field_error) list + ('a \<Rightarrow> 'b) \<Rightarrow> string \<Rightarrow> field_error + 'a
   \<Rightarrow> (string \<times> field_error) list + 'b" where
  "field (Inr f) name (Inr v) = Inr (f v)"
| "field (Inr f) name (Inl e) = Inl [(name, e)]"
| "field (Inl es) name (Inr v) = Inl es"
| "field (Inl es) name (Inl e) = Inl (es @ [(name, e)])"

fun finish :: "(string \<times> field_error) list + 'a \<Rightarrow> error + 'a" where
  "finish (Inl es) = Inl (ValidationError es)"
| "finish (Inr v) = Inr v"

text \<open>The failures collected so far.\<close>

definition failures :: "(string \<times> field_error) list + 'a \<Rightarrow> (string \<times> field_error) list" where
  "failures r = (case r of Inl es \<Rightarrow> es | Inr v \<Rightarrow> [])"

text \<open>
  The keywords of all ten classes. A class reads the keywords of its own fields and
  ignores the others.
\<close>

record kwargs =
  kw_index :: "IndexType arg"
  kw_metric_type :: "metric_arg arg"
  kw_M :: "int arg"
  kw_efConstruction :: "int arg"
  kw_ef :: "int arg"
  kw_search_list :: "int arg"
  kw_nlist :: "int arg"
  kw_nprobe :: "int arg"
  kw_cache_dataset_on_device :: "string arg"
  kw_refine_ratio :: "pyfloat arg"
  kw_limit :: "int arg"
  kw_m :: "int arg"
  kw_nbits :: "int arg"
  kw_intermediate_graph_degree :: "int arg"
  kw_graph_degree :: "int arg"
  kw_itopk_size :: "int arg"
  kw_team_size :: "int arg"
  kw_search_width :: "int arg"
  kw_min_iterations :: "int arg"
  kw_max_iterations :: "int arg"
  kw_build_algo :: "string arg"

definition no_kwargs :: kwargs where
  "no_kwargs =
     \<lparr>kw_index = Omitted, kw_metric_type = Omitted, kw_M = Omitted,
      kw_efConstruction = Omitted, kw_ef = Omitted, kw_search_list = Omitted,
      kw_nlist = Omitted, kw_nprobe = Omitted, kw_cache_dataset_on_device = Omitted,
      kw_refine_ratio = Omitted, kw_limit = Omitted, kw_m = Omitted, kw_nbits = Omitted,
      kw_intermediate_graph_degree = Omitted, kw_graph_degree = Omitted,
      kw_itopk_size = Omitted, kw_team_size = Omitted, kw_search_width = Omitted,
      kw_min_iterations = Omitted, kw_max_iterations = Omitted, kw_build_algo = Omitted\<rparr>"

definition AutoIndexConfig_init :: "kwargs \<Rightarrow> error + AutoIndexConfig" where
  "AutoIndexConfig_init kw = finish
     (field (field (Inr MilvusIndexConfig.make)
        ''index'' (defaulted AUTOINDEX (kw_index kw)))
        ''metric_type'' (metric_type_field (kw_metric_type kw)))"

definition HNSWConfig_init :: "kwargs \<Rightarrow> error + HNSWConfig" where
  "HNSWConfig_init kw = finish
     (field (field (field (field (field (Inr HNSWConfig.make)
        ''index'' (defaulted HNSW (kw_index kw)))
        ''metric_type'' (metric_type_field (kw_metric_type kw)))
        ''M'' (required (kw_M kw)))
        ''efConstruction'' (required (kw_efConstruction kw)))
        ''ef'' (optional (kw_ef kw)))"

definition DISKANNConfig_init :: "kwargs \<Rightarrow> error + DISKANNConfig" where
  "DISKANNConfig_init kw = finish
     (field (field (field (Inr DISKANNConfig.make)
        ''index'' (defaulted DISKANN (kw_index kw)))
        ''metric_type'' (metric_type_field (kw_metric_type kw)))
        ''search_list'' (optional (kw_search_list kw)))"

definition IVFFlatConfig_init :: "kwargs \<Rightarrow> error + IVFFlatConfig" where
  "IVFFlatConfig_init kw = finish
     (field (field (field (field (Inr IVFFlatConfig.make)
        ''index'' (defaulted IVFFlat (kw_index kw)))
        ''metric_type'' (metric_type_field (kw_metric_type kw)))
        ''nlist'' (required (kw_nlist kw)))
        ''nprobe'' (optional (kw_nprobe kw)))"

definition IVFSQ8Config_init :: "kwargs \<Rightarrow> error + IVFSQ8Config" where
  "IVFSQ8Config_init kw = finish
     (field (field (field (field (Inr IVFSQ8Config.make)
        ''index'' (defaulted IVFSQ8 (kw_index kw)))
        ''metric_type'' (metric_type_field (kw_metric_type kw)))
        ''nlist'' (required (kw_nlist kw)))
        ''nprobe'' (optional (kw_nprobe kw)))"

definition FLATConfig_init :: "kwargs \<Rightarrow> error + FLATConfig" where
  "FLATConfig_init kw = finish
     (field (field (Inr MilvusIndexConfig.make)
        ''index'' (defaulted Flat (kw_index kw)))
        ''metric_type'' (metric_type_field (kw_metric_type kw)))"

definition GPUIVFFlatConfig_init :: "kwargs \<Rightarrow> error + GPUIVFFlatConfig" where
  "GPUIVFFlatConfig_init kw = finish
     (field (field (field (field (field (field (Inr GPUIVFFlatConfig.make)
        ''index'' (defaulted GPU_IVF_FLAT (kw_index kw)))
        ''metric_type'' (metric_type_field (kw_metric_type kw)))
        ''nlist'' (defaulted 1024 (kw_nlist kw)))
        ''nprobe'' (defaulted 64 (kw_nprobe kw)))
        ''cache_dataset_on_device'' (required (kw_cache_dataset_on_device kw)))
        ''refine_ratio'' (optional (kw_refine_ratio kw)))"

text \<open>
  \<^verbatim>\<open>GPUBruteForceConfig\<close> redeclares \<^verbatim>\<open>metric_type\<close> as a required
  \<^verbatim>\<open>str\<close>; the field keeps its inherited place, before \<^verbatim>\<open>limit\<close>. The class
  declares no \<^verbatim>\<open>cache_dataset_on_device\<close>.
\<close>

definition GPUBruteForceConfig_init :: "kwargs \<Rightarrow> error + GPUBruteForceConfig" where
  "GPUBruteForceConfig_init kw = finish
     (field (field (field (Inr GPUBruteForceConfig.make)
        ''index'' (defaulted GPU_BRUTE_FORCE (kw_index kw)))
        ''metric_type'' (metric_type_str_field (kw_metric_type kw)))
        ''limit'' (defaulted 10 (kw_limit kw)))"

definition GPUIVFPQConfig_init :: "kwargs \<Rightarrow> error + GPUIVFPQConfig" where
  "GPUIVFPQConfig_init kw = finish
     (field (field (field (field (field (field (field (field (Inr GPUIVFPQConfig.make)
        ''index'' (defaulted GPU_IVF_PQ (kw_index kw)))
        ''metric_type'' (metric_type_field (kw_metric_type kw)))
        ''nlist'' (defaulted 1024 (kw_nlist kw)))
        ''m'' (defaulted 0 (kw_m kw)))
        ''nbits'' (defaulted 8 (kw_nbits kw)))
        ''nprobe'' (defaulted 32 (kw_nprobe kw)))
        ''refine_ratio'' (optional (kw_refine_ratio kw)))
        ''cache_dataset_on_device'' (required (kw_cache_dataset_on_device kw)))"

definition GPUCAGRAConfig_init :: "kwargs \<Rightarrow> error + GPUCAGRAConfig" where
  "GPUCAGRAConfig_init kw = finish
     (field (field (field (field (field (field (field (field (field (field (field (field
        (Inr GPUCAGRAConfig.make)
        ''index'' (defaulted GPU_CAGRA (kw_index kw)))
        ''metric_type'' (metric_type_field (kw_metric_type kw)))
        ''intermediate_graph_degree'' (defaulted 64 (kw_intermediate_graph_degree kw)))
        ''graph_degree'' (defaulted 32 (kw_graph_degree kw)))
        ''itopk_size'' (defaulted 128 (kw_itopk_size kw)))
        ''team_size'' (defaulted 0 (kw_team_size kw)))
        ''search_width'' (defaulted 4 (kw_search_width kw)))
        ''min_iterations'' (defaulted 0 (kw_min_iterations kw)))
        ''max_iterations'' (defaulted 0 (kw_max_iterations kw)))
        ''build_algo'' (defaulted ''IVF_PQ'' (kw_build_algo kw)))
        ''cache_dataset_on_device'' (required (kw_cache_dataset_on_device kw)))
        ''refine_ratio'' (optional (kw_refine_ratio kw)))"

subsection \<open>The family registry\<close>

datatype config_class =
    AutoIndexConfig_class | HNSWConfig_class | DISKANNConfig_class | IVFFlatConfig_class
  | IVFSQ8Config_class | FLATConfig_class | GPUIVFFlatConfig_class | GPUIVFPQConfig_class
  | GPUCAGRAConfig_class | GPUBruteForceConfig_class

text \<open>Calling a class object.\<close>

fun construct :: "config_class \<Rightarrow> kwargs \<Rightarrow> error + DBCaseConfig" where
  "construct AutoIndexConfig_class kw = map_sum id An_AutoIndexConfig (AutoIndexConfig_init kw)"
| "construct HNSWConfig_class kw = map_sum id An_HNSWConfig (HNSWConfig_init kw)"
| "construct DISKANNConfig_class kw = map_sum id A_DISKANNConfig (DISKANNConfig_init kw)"
| "construct IVFFlatConfig_class kw = map_sum id An_IVFFlatConfig (IVFFlatConfig_init kw)"
| "construct IVFSQ8Config_class kw = map_sum id An_IVFSQ8Config (IVFSQ8Config_init kw)"
| "construct FLATConfig_class kw = map_sum id A_FLATConfig (FLATConfig_init kw)"
| "construct GPUIVFFlatConfig_class kw =
     map_sum id A_GPUIVFFlatConfig (GPUIVFFlatConfig_init kw)"
| "construct GPUIVFPQConfig_class kw = map_sum id A_GPUIVFPQConfig (GPUIVFPQConfig_init kw)"
| "construct GPUCAGRAConfig_class kw = map_sum id A_GPUCAGRAConfig (GPUCAGRAConfig_init kw)"
| "construct GPUBruteForceConfig_class kw =
     map_sum id A_GPUBruteForceConfig (GPUBruteForceConfig_init kw)"

text \<open>
  The optional query-time knobs of a class (its fields of type \<^verbatim>\<open>T | None\<close> that
  \<^verbatim>\<open>search_param\<close> renders) which the keywords leave unconfigured.
\<close>

fun is_unset :: "'a arg \<Rightarrow> bool" where
  "is_unset Omitted = True"
| "is_unset PassedNone = True"
| "is_unset (Passed v) = False"

fun unset_optional_knobs :: "config_class \<Rightarrow> kwargs \<Rightarrow> string list" where
  "unset_optional_knobs HNSWConfig_class kw = (if is_unset (kw_ef kw) then [''ef''] else [])"
| "unset_optional_knobs DISKANNConfig_class kw =
     (if is_unset (kw_search_list kw) then [''search_list''] else [])"
| "unset_optional_knobs IVFFlatConfig_class kw =
     (if is_unset (kw_nprobe kw) then [''nprobe''] else [])"
| "unset_optional_knobs IVFSQ8Config_class kw =
     (if is_unset (kw_nprobe kw) then [''nprobe''] else [])"
| "unset_optional_knobs GPUIVFFlatConfig_class kw =
     (if is_unset (kw_refine_ratio kw) then [''refine_ratio''] else [])"
| "unset_optional_knobs GPUIVFPQConfig_class kw =
     (if is_unset (kw_refine_ratio kw) then [''refine_ratio''] else [])"
| "unset_optional_knobs GPUCAGRAConfig_class kw =
     (if is_unset (kw_refine_ratio kw) then [''refine_ratio''] else [])"
| "unset_optional_knobs cls kw = []"

text \<open>The dictionary \<^verbatim>\<open>_milvus_case_config\<close>, entry by entry.\<close>

definition milvus_case_config :: "(IndexType \<times> config_class) list" where
  "milvus_case_config =
     [(AUTOINDEX, AutoIndexConfig_class),
      (HNSW, HNSWConfig_class),
      (DISKANN, DISKANNConfig_class),
      (IVFFlat, IVFFlatConfig_class),
      (IVFSQ8, IVFSQ8Config_class),
      (Flat, FLATConfig_class),
      (GPU_IVF_FLAT, GPUIVFFlatConfig_class),
      (GPU_IVF_PQ, GPUIVFPQConfig_class),
      (GPU_CAGRA, GPUCAGRAConfig_class),
      (GPU_BRUTE_FORCE, GPUBruteForceConfig_class)]"

text \<open>
  Modelled from the spec: the operation that looks a family up in the registry belongs
  to the caller of this module and is not part of the embedded sources. Following the
  spec, it returns the registered constructor and fails with the NotSupported
  condition on a family that has no entry.
\<close>

definition registry_lookup :: "IndexType \<Rightarrow> error + config_class" where
  "registry_lookup t =
     (case map_of milvus_case_config t of
        None \<Rightarrow> Inl NotSupported
      | Some cls \<Rightarrow> Inr cls)"

subsection \<open>The connection config \<^verbatim>\<open>MilvusConfig\<close>\<close>

text \<open>
  A pydantic \<^verbatim>\<open>SecretStr\<close> wraps a string; its length is the length of the string,
  so an empty secret is falsy.
\<close>

datatype SecretStr = SecretStr string

fun get_secret_value :: "SecretStr \<Rightarrow> string" where
  "get_secret_value (SecretStr s) = s"

text \<open>
  The values the three attributes can hold. The validator takes any of them
  (\<^verbatim>\<open>v: any\<close>); \<^verbatim>\<open>to_dict\<close> returns them.
\<close>

datatype conn_val = VNone | VStr string | VSecretStr SecretStr

fun is_str_or_SecretStr :: "conn_val \<Rightarrow> bool" where
  "is_str_or_SecretStr VNone = False"
| "is_str_or_SecretStr (VStr s) = True"
| "is_str_or_SecretStr (VSecretStr s) = True"

fun len :: "conn_val \<Rightarrow> nat" where
  "len VNone = 0"
| "len (VStr s) = length s"
| "len (VSecretStr s) = length (get_secret_value s)"

fun truthy :: "conn_val \<Rightarrow> bool" where
  "truthy VNone = False"
| "truthy (VStr s) = (s \<noteq> [])"
| "truthy (VSecretStr s) = (get_secret_value s \<noteq> [])"

text \<open>\<^verbatim>\<open>v.get_secret_value()\<close> on an attribute: only a \<^verbatim>\<open>SecretStr\<close> has the method.\<close>

fun dot_get_secret_value :: "conn_val \<Rightarrow> error + string" where
  "dot_get_secret_value (VSecretStr s) = Inr (get_secret_value s)"
| "dot_get_secret_value v = Inl (AttributeError ''get_secret_value'')"

text \<open>
  The fields this class declares. The fields it inherits from \<^verbatim>\<open>DBConfig\<close>
  (declared in \<^verbatim>\<open>..api\<close>) take no part in \<^verbatim>\<open>to_dict\<close> and are left out.
\<close>

record MilvusConfig =
  uri :: conn_val
  user :: conn_val
  password :: conn_val

definition to_dict :: "MilvusConfig \<Rightarrow> error + (string \<times> conn_val) list" where
  "to_dict self =
     (case dot_get_secret_value (uri self) of
        Inl e \<Rightarrow> Inl e
      | Inr u \<Rightarrow>
          (case (if truthy (password self)
                 then map_sum id VStr (dot_get_secret_value (password self))
                 else Inr VNone) of
             Inl e \<Rightarrow> Inl e
           | Inr p \<Rightarrow>
               Inr [(''uri'', VStr u),
                    (''user'', if truthy (user self) then user self else VNone),
                    (''password'', p)]))"

text \<open>
  The validator, registered for every field. The two lists are what
  \<^verbatim>\<open>cls.common_short_configs()\<close> and \<^verbatim>\<open>cls.common_long_configs()\<close> return; they
  are inherited from \<^verbatim>\<open>DBConfig\<close> and taken as parameters here.
\<close>

definition not_empty_field ::
  "string list \<Rightarrow> string list \<Rightarrow> conn_val \<Rightarrow> string \<Rightarrow> field_error + conn_val" where
  "not_empty_field common_short_configs common_long_configs v field_name =
     (if field_name \<in> set common_short_configs
         \<or> field_name \<in> set common_long_configs
         \<or> field_name \<in> set [''user'', ''password'']
      then Inr v
      else if is_str_or_SecretStr v \<and> len v = 0
        then Inl (ValueError ''Empty string!'')
      else Inr v)"

text \<open>
  Construction. A keyword that is passed goes through the validator; a field that is
  left out takes its default as written, without validation, so an omitted
  \<^verbatim>\<open>uri\<close> is the plain string of the class body and not a \<^verbatim>\<open>SecretStr\<close>.
\<close>

definition uri_field ::
  "string list \<Rightarrow> string list \<Rightarrow> SecretStr arg \<Rightarrow> field_error + conn_val" where
  "uri_field cs cl a =
     (case a of
        Omitted \<Rightarrow> Inr (VStr ''http://localhost:19530'')
      | PassedNone \<Rightarrow> Inl NoneIsNotAllowedError
      | Passed s \<Rightarrow> not_empty_field cs cl (VSecretStr s) ''uri'')"

definition user_field ::
  "string list \<Rightarrow> string list \<Rightarrow> string arg \<Rightarrow> field_error + conn_val" where
  "user_field cs cl a =
     (case a of
        Omitted \<Rightarrow> Inr VNone
      | PassedNone \<Rightarrow> not_empty_field cs cl VNone ''user''
      | Passed s \<Rightarrow> not_empty_field cs cl (VStr s) ''user'')"

definition password_field ::
  "string list \<Rightarrow> string list \<Rightarrow> SecretStr arg \<Rightarrow> field_error + conn_val" where
  "password_field cs cl a =
     (case a of
        Omitted \<Rightarrow> Inr VNone
      | PassedNone \<Rightarrow> not_empty_field cs cl VNone ''password''
      | Passed s \<Rightarrow> not_empty_field cs cl (VSecretStr s) ''password'')"

definition MilvusConfig_init ::
  "string list \<Rightarrow> string list \<Rightarrow> SecretStr arg \<Rightarrow> string arg \<Rightarrow> SecretStr arg
   \<Rightarrow> error + MilvusConfig" where
  "MilvusConfig_init cs cl uri_arg user_arg password_arg = finish
     (field (field (field (Inr MilvusConfig.make)
        ''uri'' (uri_field cs cl uri_arg))
        ''user'' (user_field cs cl user_arg))
        ''password'' (password_field cs cl password_arg))"

section \<open>Properties\<close>

subsection \<open>Metric normalisation\<close>

lemma parse_metric_None:
  "metric_type self = MetricNone \<Longrightarrow> parse_metric self = Inr ''''"
  by (simp add: parse_metric_def)

text \<open>
  C8. On every variant whose \<^verbatim>\<open>metric_type\<close> is \<^verbatim>\<open>None\<close> (no distance metric
  configured), \<^verbatim>\<open>parse_metric()\<close> returns the empty string.
\<close>

theorem parse_metric_unconfigured:
  "metric_type_of c = MetricNone \<Longrightarrow> DBCaseConfig_parse_metric c = Inr ''''"
  by (cases c) (simp_all add: parse_metric_None)

theorem parse_metric_unconfigured_witness:
  "metric_type_of (A_FLATConfig \<lparr>index = Flat, metric_type = MetricNone\<rparr>) = MetricNone
   \<and> DBCaseConfig_parse_metric (A_FLATConfig \<lparr>index = Flat, metric_type = MetricNone\<rparr>)
       = Inr ''''"
  using parse_metric_unconfigured [of "A_FLATConfig \<lparr>index = Flat, metric_type = MetricNone\<rparr>"]
  by simp

text \<open>
  C1. On every variant whose family tag is one of the four GPU families and whose
  metric is cosine (the enumeration member, or the string \<open>COSINE\<close> that
  \<^verbatim>\<open>GPUBruteForceConfig\<close> holds), \<^verbatim>\<open>parse_metric()\<close> returns \<open>L2\<close> and not
  \<open>COSINE\<close>, and raises nothing.
\<close>

theorem parse_metric_gpu_cosine:
  "index_of c \<in> {GPU_IVF_FLAT, GPU_IVF_PQ, GPU_CAGRA, GPU_BRUTE_FORCE} \<Longrightarrow>
   metric_type_of c \<in> {MetricEnum COSINE, MetricStr ''COSINE''} \<Longrightarrow>
   DBCaseConfig_parse_metric c = Inr ''L2'' \<and> DBCaseConfig_parse_metric c \<noteq> Inr ''COSINE''"
  by (cases c) (auto simp add: parse_metric_def is_gpu_index_def)

theorem parse_metric_gpu_cosine_witness:
  "index_of (A_GPUBruteForceConfig
      \<lparr>index = GPU_BRUTE_FORCE, metric_type = MetricStr ''COSINE'', limit = 10\<rparr>)
     \<in> {GPU_IVF_FLAT, GPU_IVF_PQ, GPU_CAGRA, GPU_BRUTE_FORCE}
   \<and> metric_type_of (A_GPUBruteForceConfig
      \<lparr>index = GPU_BRUTE_FORCE, metric_type = MetricStr ''COSINE'', limit = 10\<rparr>)
     \<in> {MetricEnum COSINE, MetricStr ''COSINE''}
   \<and> DBCaseConfig_parse_metric (A_GPUBruteForceConfig
      \<lparr>index = GPU_BRUTE_FORCE, metric_type = MetricStr ''COSINE'', limit = 10\<rparr>)
     = Inr ''L2''"
  using parse_metric_gpu_cosine [of "A_GPUBruteForceConfig
      \<lparr>index = GPU_BRUTE_FORCE, metric_type = MetricStr ''COSINE'', limit = 10\<rparr>"]
  by simp

text \<open>
  \<^verbatim>\<open>parse_metric()\<close> returns whenever the metric is unset or an enumeration member;
  it raises only on a plain string that is neither empty nor the cosine rule's.
\<close>

lemma parse_metric_returns:
  "metric_type_of c = MetricNone \<or> metric_type_of c = MetricEnum t \<Longrightarrow>
   \<exists>mt. DBCaseConfig_parse_metric c = Inr mt"
  by (cases c) (auto simp add: parse_metric_def)

lemma parse_metric_plain_string_raises:
  "DBCaseConfig_parse_metric (A_GPUBruteForceConfig
      \<lparr>index = GPU_BRUTE_FORCE, metric_type = MetricStr ''L2'', limit = 10\<rparr>)
   = Inl (AttributeError ''value'')"
  by (simp add: parse_metric_def is_gpu_index_def)

subsection \<open>Shape of the payloads\<close>

lemma with_metric_Inr:
  "parse_metric self = Inr mt \<Longrightarrow> with_metric self body = Inr (body mt)"
  by (simp add: with_metric_def)

lemma with_metric_Inr_iff:
  "with_metric self body = Inr d \<longleftrightarrow> (\<exists>mt. parse_metric self = Inr mt \<and> d = body mt)"
  by (auto simp add: with_metric_def split: sum.splits)

lemmas index_param_defs =
  AutoIndexConfig_index_param_def HNSWConfig_index_param_def DISKANNConfig_index_param_def
  IVFFlatConfig_index_param_def IVFSQ8Config_index_param_def FLATConfig_index_param_def
  GPUIVFFlatConfig_index_param_def GPUIVFPQConfig_index_param_def
  GPUCAGRAConfig_index_param_def GPUBruteForceConfig_index_param_def

lemmas search_param_defs =
  AutoIndexConfig_search_param_def HNSWConfig_search_param_def DISKANNConfig_search_param_def
  IVFFlatConfig_search_param_def IVFSQ8Config_search_param_def FLATConfig_search_param_def
  GPUIVFFlatConfig_search_param_def GPUIVFPQConfig_search_param_def
  GPUCAGRAConfig_search_param_def GPUBruteForceConfig_search_param_def

text \<open>
  C4, as the spec states it: for every variant \<^verbatim>\<open>search_param()\<close> has exactly the
  two keys \<open>metric_type\<close> and \<open>params\<close>. It fails on \<^verbatim>\<open>AutoIndexConfig\<close>, whose
  \<^verbatim>\<open>search_param()\<close> returns the metric alone.
\<close>

theorem search_param_AutoIndex_one_key:
  "search_param (An_AutoIndexConfig \<lparr>index = AUTOINDEX, metric_type = MetricEnum L2\<rparr>)
   = Inr [(''metric_type'', PStr ''L2'')]"
  by (simp add: AutoIndexConfig_search_param_def with_metric_def parse_metric_def
      is_gpu_index_def)

text \<open>
  C4, amended: whenever \<^verbatim>\<open>parse_metric()\<close> returns, \<^verbatim>\<open>index_param()\<close> and
  \<^verbatim>\<open>search_param()\<close> both return and carry that same metric under \<open>metric_type\<close>;
  the keys of \<^verbatim>\<open>search_param()\<close> are exactly \<open>metric_type\<close> and \<open>params\<close>, the
  latter a nested mapping, on every variant but \<^verbatim>\<open>AutoIndexConfig\<close>, where the only
  key is \<open>metric_type\<close>.
\<close>

theorem search_param_keys:
  "DBCaseConfig_parse_metric c = Inr mt \<Longrightarrow>
   (\<exists>ip. index_param c = Inr ip \<and> map_of ip ''metric_type'' = Some (PStr mt)) \<and>
   (\<exists>sp. search_param c = Inr sp \<and> map_of sp ''metric_type'' = Some (PStr mt) \<and>
      (if is_AutoIndexConfig c then map fst sp = [''metric_type'']
       else map fst sp = [''metric_type'', ''params''] \<and>
            (\<exists>ps. map_of sp ''params'' = Some (PDict ps))))"
  by (cases c) (simp_all add: index_param_defs search_param_defs with_metric_Inr)

theorem search_param_keys_witness:
  "DBCaseConfig_parse_metric
     (An_HNSWConfig \<lparr>index = HNSW, metric_type = MetricEnum IP, M = 16,
        efConstruction = 200, ef = None\<rparr>) = Inr ''IP''
   \<and> search_param
     (An_HNSWConfig \<lparr>index = HNSW, metric_type = MetricEnum IP, M = 16,
        efConstruction = 200, ef = None\<rparr>)
     = Inr [(''metric_type'', PStr ''IP''), (''params'', PDict [(''ef'', PNone)])]"
  using search_param_keys [of "An_HNSWConfig \<lparr>index = HNSW, metric_type = MetricEnum IP,
      M = 16, efConstruction = 200, ef = None\<rparr>" "''IP''"]
  by (simp add: HNSWConfig_search_param_def with_metric_def parse_metric_def is_gpu_index_def)

subsection \<open>Build-time and query-time knobs\<close>

lemma knob_columns_disjoint: "set build_time_knobs \<inter> set query_time_knobs = {}"
  by (simp add: build_time_knobs_def query_time_knobs_def)

lemma index_param_params_build_time:
  "index_param c = Inr d \<Longrightarrow> params_of d = Some ps \<Longrightarrow>
   set (map fst ps) \<subseteq> set build_time_knobs"
  by (cases c)
     (auto simp add: index_param_defs with_metric_Inr_iff params_of_def build_time_knobs_def)

lemma search_param_params_query_time:
  "search_param c = Inr d \<Longrightarrow> params_of d = Some ps \<Longrightarrow>
   set (map fst ps) \<subseteq> set query_time_knobs"
  by (cases c)
     (auto simp add: search_param_defs with_metric_Inr_iff params_of_def query_time_knobs_def)

text \<open>
  C7. For every variant, no query-time knob is a key of the \<open>params\<close> mapping of
  \<^verbatim>\<open>index_param()\<close>, and no build-time knob is a key of the \<open>params\<close> mapping of
  \<^verbatim>\<open>search_param()\<close>.
\<close>

theorem params_knobs_separated:
  "(index_param c = Inr d \<longrightarrow> params_of d = Some ps \<longrightarrow>
      set (map fst ps) \<inter> set query_time_knobs = {}) \<and>
   (search_param c = Inr d' \<longrightarrow> params_of d' = Some ps' \<longrightarrow>
      set (map fst ps') \<inter> set build_time_knobs = {})"
  using index_param_params_build_time [of c d ps]
        search_param_params_query_time [of c d' ps'] knob_columns_disjoint
  by blast

theorem params_knobs_separated_witness:
  "index_param (A_GPUIVFFlatConfig
      \<lparr>index = GPU_IVF_FLAT, metric_type = MetricNone,
         GPUIVFFlatConfig.nlist = 1024, GPUIVFFlatConfig.nprobe = 64,
         GPUIVFFlatConfig.cache_dataset_on_device = ''true'',
         GPUIVFFlatConfig.refine_ratio = None\<rparr>)
     = Inr [(''metric_type'', PStr ''''), (''index_type'', PStr ''GPU_IVF_FLAT''),
            (''params'', PDict [(''nlist'', PInt 1024),
                                (''cache_dataset_on_device'', PStr ''true'')])]
   \<and> params_of [(''metric_type'', PStr ''''), (''index_type'', PStr ''GPU_IVF_FLAT''),
            (''params'', PDict [(''nlist'', PInt 1024),
                                (''cache_dataset_on_device'', PStr ''true'')])]
     = Some [(''nlist'', PInt 1024), (''cache_dataset_on_device'', PStr ''true'')]
   \<and> set (map fst [(''nlist'', PInt 1024), (''cache_dataset_on_device'', PStr ''true'')])
       \<inter> set query_time_knobs = {}
   \<and> search_param (A_GPUIVFFlatConfig
      \<lparr>index = GPU_IVF_FLAT, metric_type = MetricNone,
         GPUIVFFlatConfig.nlist = 1024, GPUIVFFlatConfig.nprobe = 64,
         GPUIVFFlatConfig.cache_dataset_on_device = ''true'',
         GPUIVFFlatConfig.refine_ratio = None\<rparr>)
     = Inr [(''metric_type'', PStr ''''),
            (''params'', PDict [(''nprobe'', PInt 64), (''refine_ratio'', PNone)])]
   \<and> params_of [(''metric_type'', PStr ''''),
            (''params'', PDict [(''nprobe'', PInt 64), (''refine_ratio'', PNone)])]
     = Some [(''nprobe'', PInt 64), (''refine_ratio'', PNone)]
   \<and> set (map fst [(''nprobe'', PInt 64), (''refine_ratio'', PNone)])
       \<inter> set build_time_knobs = {}"
  using params_knobs_separated [of
      "A_GPUIVFFlatConfig \<lparr>index = GPU_IVF_FLAT, metric_type = MetricNone,
         GPUIVFFlatConfig.nlist = 1024, GPUIVFFlatConfig.nprobe = 64,
         GPUIVFFlatConfig.cache_dataset_on_device = ''true'',
         GPUIVFFlatConfig.refine_ratio = None\<rparr>"
      "[(''metric_type'', PStr ''''), (''index_type'', PStr ''GPU_IVF_FLAT''),
        (''params'', PDict [(''nlist'', PInt 1024),
                            (''cache_dataset_on_device'', PStr ''true'')])]"
      "[(''nlist'', PInt 1024), (''cache_dataset_on_device'', PStr ''true'')]"
      "[(''metric_type'', PStr ''''),
        (''params'', PDict [(''nprobe'', PInt 64), (''refine_ratio'', PNone)])]"
      "[(''nprobe'', PInt 64), (''refine_ratio'', PNone)]"]
  by (simp add: GPUIVFFlatConfig_index_param_def GPUIVFFlatConfig_search_param_def
      with_metric_def parse_metric_def params_of_def)

subsection \<open>Construction\<close>

lemma field_Inr_iff:
  "field r n x = Inr v \<longleftrightarrow> (\<exists>f a. r = Inr f \<and> x = Inr a \<and> v = f a)"
  by (cases r; cases x) auto

lemma finish_Inr_iff: "finish r = Inr v \<longleftrightarrow> r = Inr v"
  by (cases r) auto

lemma failures_field:
  "failures (field r n x) = failures r @ (case x of Inl e \<Rightarrow> [(n, e)] | Inr a \<Rightarrow> [])"
  by (cases r; cases x) (simp_all add: failures_def)

lemma finish_failures:
  "failures r \<noteq> [] \<Longrightarrow> finish r = Inl (ValidationError (failures r))"
  by (cases r) (simp_all add: failures_def)

lemma map_sum_Inr_iff: "map_sum id g r = Inr c \<longleftrightarrow> (\<exists>x. r = Inr x \<and> c = g x)"
  by (cases r) auto

lemma map_sum_Inl_iff: "map_sum id g r = Inl e \<longleftrightarrow> r = Inl e"
  by (cases r) auto

lemma optional_unset: "is_unset a \<Longrightarrow> optional a = Inr v \<Longrightarrow> v = None"
  by (cases a) auto

lemma metric_type_field_cases:
  "metric_type_field a = Inr v \<Longrightarrow> v = MetricNone \<or> (\<exists>t. v = MetricEnum t)"
  by (cases a rule: metric_type_field.cases) (auto split: option.splits)

lemma parse_metric_total:
  "metric_type self = MetricNone \<or> (\<exists>t. metric_type self = MetricEnum t) \<Longrightarrow>
   \<exists>mt. parse_metric self = Inr mt"
  by (auto simp add: parse_metric_def)

lemmas init_defs =
  AutoIndexConfig_init_def HNSWConfig_init_def DISKANNConfig_init_def IVFFlatConfig_init_def
  IVFSQ8Config_init_def FLATConfig_init_def GPUIVFFlatConfig_init_def
  GPUIVFPQConfig_init_def GPUCAGRAConfig_init_def GPUBruteForceConfig_init_def

lemmas make_defs =
  MilvusIndexConfig.defs HNSWConfig.defs DISKANNConfig.defs IVFFlatConfig.defs
  IVFSQ8Config.defs GPUIVFFlatConfig.defs GPUIVFPQConfig.defs GPUCAGRAConfig.defs
  GPUBruteForceConfig.defs

text \<open>
  A \<^verbatim>\<open>GPUBruteForceConfig\<close> constructed with the cosine metric, passed as the
  member or as its wire string, holds the string \<open>COSINE\<close>, and
  \<^verbatim>\<open>parse_metric()\<close> turns it into \<open>L2\<close>.
\<close>

lemma GPUBruteForceConfig_cosine:
  assumes "kw_metric_type kw = Passed (Member COSINE) \<or> kw_metric_type kw = Passed (Str ''COSINE'')"
    and "kw_index kw = Omitted" and "GPUBruteForceConfig_init kw = Inr c"
  shows "metric_type c = MetricStr ''COSINE''" and "parse_metric c = Inr ''L2''"
  using assms
  by (auto simp add: GPUBruteForceConfig_init_def finish_Inr_iff field_Inr_iff
      GPUBruteForceConfig.defs parse_metric_def is_gpu_index_def)

text \<open>
  C2. \<^verbatim>\<open>GPUIVFFlatConfig(nlist=1024, nprobe=64, cache_dataset_on_device="true",
  metric_type=MetricType.COSINE)\<close> is constructed, and its two payloads are the ones
  the spec lists.
\<close>

theorem GPUIVFFlat_scenario:
  "\<exists>c. GPUIVFFlatConfig_init
          (no_kwargs\<lparr>kw_nlist := Passed 1024, kw_nprobe := Passed 64,
             kw_cache_dataset_on_device := Passed ''true'',
             kw_metric_type := Passed (Member COSINE)\<rparr>) = Inr c
      \<and> GPUIVFFlatConfig_index_param c =
          Inr [(''metric_type'', PStr ''L2''),
               (''index_type'', PStr ''GPU_IVF_FLAT''),
               (''params'', PDict [(''nlist'', PInt 1024),
                                   (''cache_dataset_on_device'', PStr ''true'')])]
      \<and> GPUIVFFlatConfig_search_param c =
          Inr [(''metric_type'', PStr ''L2''),
               (''params'', PDict [(''nprobe'', PInt 64), (''refine_ratio'', PNone)])]"
  by (simp add: GPUIVFFlatConfig_init_def no_kwargs_def GPUIVFFlatConfig.defs
      GPUIVFFlatConfig_index_param_def GPUIVFFlatConfig_search_param_def with_metric_def
      parse_metric_def is_gpu_index_def)

text \<open>
  C3, as the spec states it: every GPU variant fails without the device-cache flag.
  It fails on \<^verbatim>\<open>GPUBruteForceConfig\<close>, which declares no such field and is
  constructed without it.
\<close>

theorem GPUBruteForce_without_cache_flag:
  "construct GPUBruteForceConfig_class (no_kwargs\<lparr>kw_metric_type := Passed (Str ''L2'')\<rparr>)
   = Inr (A_GPUBruteForceConfig
        \<lparr>index = GPU_BRUTE_FORCE, metric_type = MetricStr ''L2'', limit = 10\<rparr>)"
  by (simp add: GPUBruteForceConfig_init_def no_kwargs_def GPUBruteForceConfig.defs)

lemma GPUIVFFlatConfig_needs_cache_flag:
  assumes "kw_cache_dataset_on_device kw = Omitted"
  shows "\<exists>es. GPUIVFFlatConfig_init kw = Inl (ValidationError es)
           \<and> (''cache_dataset_on_device'', MissingError) \<in> set es"
  unfolding GPUIVFFlatConfig_init_def
  by (subst finish_failures) (simp_all add: failures_field assms)

lemma GPUIVFPQConfig_needs_cache_flag:
  assumes "kw_cache_dataset_on_device kw = Omitted"
  shows "\<exists>es. GPUIVFPQConfig_init kw = Inl (ValidationError es)
           \<and> (''cache_dataset_on_device'', MissingError) \<in> set es"
  unfolding GPUIVFPQConfig_init_def
  by (subst finish_failures) (simp_all add: failures_field assms)

lemma GPUCAGRAConfig_needs_cache_flag:
  assumes "kw_cache_dataset_on_device kw = Omitted"
  shows "\<exists>es. GPUCAGRAConfig_init kw = Inl (ValidationError es)
           \<and> (''cache_dataset_on_device'', MissingError) \<in> set es"
  unfolding GPUCAGRAConfig_init_def
  by (subst finish_failures) (simp_all add: failures_field assms)

text \<open>
  C3, amended: constructing \<^verbatim>\<open>GPUIVFFlatConfig\<close>, \<^verbatim>\<open>GPUIVFPQConfig\<close> or
  \<^verbatim>\<open>GPUCAGRAConfig\<close> without \<^verbatim>\<open>cache_dataset_on_device\<close> fails, whatever the
  other keywords, with a validation error that reports the field as missing; no
  instance exists on which a payload could be rendered.
\<close>

theorem gpu_cache_flag_required:
  "cls \<in> {GPUIVFFlatConfig_class, GPUIVFPQConfig_class, GPUCAGRAConfig_class} \<Longrightarrow>
   kw_cache_dataset_on_device kw = Omitted \<Longrightarrow>
   \<exists>es. construct cls kw = Inl (ValidationError es)
        \<and> (''cache_dataset_on_device'', MissingError) \<in> set es"
  using GPUIVFFlatConfig_needs_cache_flag [of kw] GPUIVFPQConfig_needs_cache_flag [of kw]
        GPUCAGRAConfig_needs_cache_flag [of kw]
  by (auto simp add: map_sum_Inl_iff)

theorem gpu_cache_flag_required_witness:
  "GPUIVFPQConfig_class \<in> {GPUIVFFlatConfig_class, GPUIVFPQConfig_class, GPUCAGRAConfig_class}
   \<and> kw_cache_dataset_on_device (no_kwargs\<lparr>kw_nlist := Passed 1024\<rparr>) = Omitted
   \<and> construct GPUIVFPQConfig_class (no_kwargs\<lparr>kw_nlist := Passed 1024\<rparr>)
       = Inl (ValidationError [(''cache_dataset_on_device'', MissingError)])"
  using gpu_cache_flag_required [of GPUIVFPQConfig_class "no_kwargs\<lparr>kw_nlist := Passed 1024\<rparr>"]
  by (simp add: GPUIVFPQConfig_init_def no_kwargs_def)

subsection \<open>Optional query-time knobs\<close>

lemma HNSWConfig_unset_ef:
  assumes "HNSWConfig_init kw = Inr c" and "is_unset (kw_ef kw)"
  shows "\<exists>mt. HNSWConfig_search_param c =
           Inr [(''metric_type'', PStr mt), (''params'', PDict [(''ef'', PNone)])]"
proof -
  from assms obtain mt where "ef c = None"
    and "metric_type_field (kw_metric_type kw) = Inr mt" and "metric_type c = mt"
    by (auto simp add: HNSWConfig_init_def finish_Inr_iff field_Inr_iff HNSWConfig.defs
        dest: optional_unset)
  then show ?thesis
    using parse_metric_total [of c] metric_type_field_cases [of "kw_metric_type kw" mt]
    by (auto simp add: HNSWConfig_search_param_def with_metric_def)
qed

lemma DISKANNConfig_unset_search_list:
  assumes "DISKANNConfig_init kw = Inr c" and "is_unset (kw_search_list kw)"
  shows "\<exists>mt. DISKANNConfig_search_param c =
           Inr [(''metric_type'', PStr mt), (''params'', PDict [(''search_list'', PNone)])]"
proof -
  from assms obtain mt where "search_list c = None"
    and "metric_type_field (kw_metric_type kw) = Inr mt" and "metric_type c = mt"
    by (auto simp add: DISKANNConfig_init_def finish_Inr_iff field_Inr_iff DISKANNConfig.defs
        dest: optional_unset)
  then show ?thesis
    using parse_metric_total [of c] metric_type_field_cases [of "kw_metric_type kw" mt]
    by (auto simp add: DISKANNConfig_search_param_def with_metric_def)
qed

lemma IVFFlatConfig_unset_nprobe:
  assumes "IVFFlatConfig_init kw = Inr c" and "is_unset (kw_nprobe kw)"
  shows "\<exists>mt. IVFFlatConfig_search_param c =
           Inr [(''metric_type'', PStr mt), (''params'', PDict [(''nprobe'', PNone)])]"
proof -
  from assms obtain mt where "IVFFlatConfig.nprobe c = None"
    and "metric_type_field (kw_metric_type kw) = Inr mt" and "metric_type c = mt"
    by (auto simp add: IVFFlatConfig_init_def finish_Inr_iff field_Inr_iff IVFFlatConfig.defs
        dest: optional_unset)
  then show ?thesis
    using parse_metric_total [of c] metric_type_field_cases [of "kw_metric_type kw" mt]
    by (auto simp add: IVFFlatConfig_search_param_def with_metric_def)
qed

lemma IVFSQ8Config_unset_nprobe:
  assumes "IVFSQ8Config_init kw = Inr c" and "is_unset (kw_nprobe kw)"
  shows "\<exists>mt. IVFSQ8Config_search_param c =
           Inr [(''metric_type'', PStr mt), (''params'', PDict [(''nprobe'', PNone)])]"
proof -
  from assms obtain mt where "IVFSQ8Config.nprobe c = None"
    and "metric_type_field (kw_metric_type kw) = Inr mt" and "metric_type c = mt"
    by (auto simp add: IVFSQ8Config_init_def finish_Inr_iff field_Inr_iff IVFSQ8Config.defs
        dest: optional_unset)
  then show ?thesis
    using parse_metric_total [of c] metric_type_field_cases [of "kw_metric_type kw" mt]
    by (auto simp add: IVFSQ8Config_search_param_def with_metric_def)
qed

lemma GPUIVFFlatConfig_unset_refine_ratio:
  assumes "GPUIVFFlatConfig_init kw = Inr c" and "is_unset (kw_refine_ratio kw)"
  shows "\<exists>mt n. GPUIVFFlatConfig_search_param c =
           Inr [(''metric_type'', PStr mt),
                (''params'', PDict [(''nprobe'', PInt n), (''refine_ratio'', PNone)])]"
proof -
  from assms obtain mt where "GPUIVFFlatConfig.refine_ratio c = None"
    and "metric_type_field (kw_metric_type kw) = Inr mt" and "metric_type c = mt"
    by (auto simp add: GPUIVFFlatConfig_init_def finish_Inr_iff field_Inr_iff
        GPUIVFFlatConfig.defs dest: optional_unset)
  then show ?thesis
    using parse_metric_total [of c] metric_type_field_cases [of "kw_metric_type kw" mt]
    by (auto simp add: GPUIVFFlatConfig_search_param_def with_metric_def)
qed

lemma GPUIVFPQConfig_unset_refine_ratio:
  assumes "GPUIVFPQConfig_init kw = Inr c" and "is_unset (kw_refine_ratio kw)"
  shows "\<exists>mt n. GPUIVFPQConfig_search_param c =
           Inr [(''metric_type'', PStr mt),
                (''params'', PDict [(''nprobe'', PInt n), (''refine_ratio'', PNone)])]"
proof -
  from assms obtain mt where "GPUIVFPQConfig.refine_ratio c = None"
    and "metric_type_field (kw_metric_type kw) = Inr mt" and "metric_type c = mt"
    by (auto simp add: GPUIVFPQConfig_init_def finish_Inr_iff field_Inr_iff
        GPUIVFPQConfig.defs dest: optional_unset)
  then show ?thesis
    using parse_metric_total [of c] metric_type_field_cases [of "kw_metric_type kw" mt]
    by (auto simp add: GPUIVFPQConfig_search_param_def with_metric_def)
qed

lemma GPUCAGRAConfig_unset_refine_ratio:
  assumes "GPUCAGRAConfig_init kw = Inr c" and "is_unset (kw_refine_ratio kw)"
  shows "\<exists>mt ps. GPUCAGRAConfig_search_param c =
           Inr [(''metric_type'', PStr mt), (''params'', PDict ps)]
         \<and> map_of ps ''refine_ratio'' = Some PNone"
proof -
  from assms obtain mt where "GPUCAGRAConfig.refine_ratio c = None"
    and "metric_type_field (kw_metric_type kw) = Inr mt" and "metric_type c = mt"
    by (auto simp add: GPUCAGRAConfig_init_def finish_Inr_iff field_Inr_iff
        GPUCAGRAConfig.defs dest: optional_unset)
  then show ?thesis
    using parse_metric_total [of c] metric_type_field_cases [of "kw_metric_type kw" mt]
    by (auto simp add: GPUCAGRAConfig_search_param_def with_metric_def)
qed

text \<open>
  C10. When a class is constructed with one of its optional query-time knobs left
  out or passed as \<^verbatim>\<open>None\<close> (\<^verbatim>\<open>ef\<close> of \<^verbatim>\<open>HNSWConfig\<close>, \<^verbatim>\<open>search_list\<close> of
  \<^verbatim>\<open>DISKANNConfig\<close>, \<^verbatim>\<open>nprobe\<close> of the two inverted-file classes,
  \<^verbatim>\<open>refine_ratio\<close> of the three GPU classes that have it), \<^verbatim>\<open>search_param()\<close>
  returns, and its \<open>params\<close> mapping holds the knob's key with the value
  \<^verbatim>\<open>None\<close>.
\<close>

theorem unset_optional_knob_is_None:
  "construct cls kw = Inr c \<Longrightarrow> k \<in> set (unset_optional_knobs cls kw) \<Longrightarrow>
   \<exists>sp ps. search_param c = Inr sp \<and> params_of sp = Some ps \<and> map_of ps k = Some PNone"
proof (cases cls)
  case HNSWConfig_class
  assume "construct cls kw = Inr c" and "k \<in> set (unset_optional_knobs cls kw)"
  with HNSWConfig_class show ?thesis
    using HNSWConfig_unset_ef [of kw]
    by (fastforce simp add: map_sum_Inr_iff params_of_def split: if_splits)
next
  case DISKANNConfig_class
  assume "construct cls kw = Inr c" and "k \<in> set (unset_optional_knobs cls kw)"
  with DISKANNConfig_class show ?thesis
    using DISKANNConfig_unset_search_list [of kw]
    by (fastforce simp add: map_sum_Inr_iff params_of_def split: if_splits)
next
  case IVFFlatConfig_class
  assume "construct cls kw = Inr c" and "k \<in> set (unset_optional_knobs cls kw)"
  with IVFFlatConfig_class show ?thesis
    using IVFFlatConfig_unset_nprobe [of kw]
    by (fastforce simp add: map_sum_Inr_iff params_of_def split: if_splits)
next
  case IVFSQ8Config_class
  assume "construct cls kw = Inr c" and "k \<in> set (unset_optional_knobs cls kw)"
  with IVFSQ8Config_class show ?thesis
    using IVFSQ8Config_unset_nprobe [of kw]
    by (fastforce simp add: map_sum_Inr_iff params_of_def split: if_splits)
next
  case GPUIVFFlatConfig_class
  assume "construct cls kw = Inr c" and "k \<in> set (unset_optional_knobs cls kw)"
  with GPUIVFFlatConfig_class show ?thesis
    using GPUIVFFlatConfig_unset_refine_ratio [of kw]
    by (fastforce simp add: map_sum_Inr_iff params_of_def split: if_splits)
next
  case GPUIVFPQConfig_class
  assume "construct cls kw = Inr c" and "k \<in> set (unset_optional_knobs cls kw)"
  with GPUIVFPQConfig_class show ?thesis
    using GPUIVFPQConfig_unset_refine_ratio [of kw]
    by (fastforce simp add: map_sum_Inr_iff params_of_def split: if_splits)
next
  case GPUCAGRAConfig_class
  assume "construct cls kw = Inr c" and "k \<in> set (unset_optional_knobs cls kw)"
  with GPUCAGRAConfig_class show ?thesis
    using GPUCAGRAConfig_unset_refine_ratio [of kw]
    by (fastforce simp add: map_sum_Inr_iff params_of_def split: if_splits)
qed simp_all

theorem unset_optional_knob_is_None_witness:
  "construct HNSWConfig_class (no_kwargs\<lparr>kw_M := Passed 16, kw_efConstruction := Passed 200\<rparr>)
     = Inr (An_HNSWConfig \<lparr>index = HNSW, metric_type = MetricNone, M = 16,
              efConstruction = 200, ef = None\<rparr>)
   \<and> ''ef'' \<in> set (unset_optional_knobs HNSWConfig_class
        (no_kwargs\<lparr>kw_M := Passed 16, kw_efConstruction := Passed 200\<rparr>))
   \<and> (\<exists>sp ps. search_param (An_HNSWConfig \<lparr>index = HNSW, metric_type = MetricNone, M = 16,
              efConstruction = 200, ef = None\<rparr>) = Inr sp
        \<and> params_of sp = Some ps \<and> map_of ps ''ef'' = Some PNone)"
  using unset_optional_knob_is_None [of HNSWConfig_class
      "no_kwargs\<lparr>kw_M := Passed 16, kw_efConstruction := Passed 200\<rparr>"
      "An_HNSWConfig \<lparr>index = HNSW, metric_type = MetricNone, M = 16,
         efConstruction = 200, ef = None\<rparr>" "''ef''"]
  by (simp add: HNSWConfig_init_def no_kwargs_def HNSWConfig.defs)

subsection \<open>The family registry\<close>

lemma registered_class_family_tag:
  "(t, cls) \<in> set milvus_case_config \<Longrightarrow> kw_index kw = Omitted \<Longrightarrow>
   construct cls kw = Inr c \<Longrightarrow> index_of c = t"
  by (auto simp add: milvus_case_config_def map_sum_Inr_iff init_defs finish_Inr_iff
      field_Inr_iff make_defs)

lemma registry_keys_distinct: "distinct (map fst milvus_case_config)"
  by (simp add: milvus_case_config_def)

text \<open>
  C6. Looking up a family that has no entry in \<^verbatim>\<open>_milvus_case_config\<close> fails with
  the NotSupported condition. Looking up a family that has an entry returns the
  class registered for it, and that class is the one responsible for the family:
  an instance it constructs (with \<^verbatim>\<open>index\<close> left at the class's default) carries
  the family as its tag.
\<close>

theorem registry_lookup_family:
  "(t \<notin> fst ` set milvus_case_config \<longrightarrow> registry_lookup t = Inl NotSupported) \<and>
   ((t, cls) \<in> set milvus_case_config \<longrightarrow>
      registry_lookup t = Inr cls \<and>
      (kw_index kw = Omitted \<longrightarrow> construct cls kw = Inr c \<longrightarrow> index_of c = t))"
proof (intro conjI impI)
  assume "t \<notin> fst ` set milvus_case_config"
  then have "map_of milvus_case_config t = None"
    by (simp add: map_of_eq_None_iff)
  then show "registry_lookup t = Inl NotSupported"
    by (simp add: registry_lookup_def)
next
  assume "(t, cls) \<in> set milvus_case_config"
  then have "map_of milvus_case_config t = Some cls"
    using registry_keys_distinct by simp
  then show "registry_lookup t = Inr cls"
    by (simp add: registry_lookup_def)
next
  assume "(t, cls) \<in> set milvus_case_config" and "kw_index kw = Omitted"
    and "construct cls kw = Inr c"
  then show "index_of c = t"
    by (rule registered_class_family_tag)
qed

theorem registry_lookup_family_witness:
  "OtherIndexType ''SCANN'' \<notin> fst ` set milvus_case_config
   \<and> registry_lookup (OtherIndexType ''SCANN'') = Inl NotSupported
   \<and> (IVFFlat, IVFFlatConfig_class) \<in> set milvus_case_config
   \<and> registry_lookup IVFFlat = Inr IVFFlatConfig_class
   \<and> kw_index (no_kwargs\<lparr>kw_nlist := Passed 128\<rparr>) = Omitted
   \<and> construct IVFFlatConfig_class (no_kwargs\<lparr>kw_nlist := Passed 128\<rparr>)
       = Inr (An_IVFFlatConfig \<lparr>index = IVFFlat, metric_type = MetricNone,
                IVFFlatConfig.nlist = 128, IVFFlatConfig.nprobe = None\<rparr>)
   \<and> index_of (An_IVFFlatConfig \<lparr>index = IVFFlat, metric_type = MetricNone,
                IVFFlatConfig.nlist = 128, IVFFlatConfig.nprobe = None\<rparr>) = IVFFlat"
  using registry_lookup_family [of "OtherIndexType ''SCANN''" IVFFlatConfig_class no_kwargs
          "An_IVFFlatConfig \<lparr>index = IVFFlat, metric_type = MetricNone,
                IVFFlatConfig.nlist = 128, IVFFlatConfig.nprobe = None\<rparr>"]
        registry_lookup_family [of IVFFlat IVFFlatConfig_class
          "no_kwargs\<lparr>kw_nlist := Passed 128\<rparr>"
          "An_IVFFlatConfig \<lparr>index = IVFFlat, metric_type = MetricNone,
                IVFFlatConfig.nlist = 128, IVFFlatConfig.nprobe = None\<rparr>"]
  by (simp add: milvus_case_config_def IVFFlatConfig_init_def no_kwargs_def
      IVFFlatConfig.defs)

subsection \<open>The connection config\<close>

lemma credentials_exempt:
  "user_field cs cl a = Inr (case a of Passed s \<Rightarrow> VStr s | _ \<Rightarrow> VNone)"
  "password_field cs cl b = Inr (case b of Passed s \<Rightarrow> VSecretStr s | _ \<Rightarrow> VNone)"
  by (simp_all add: user_field_def password_field_def not_empty_field_def split: arg.splits)

lemma uri_field_empty:
  "''uri'' \<notin> set cs \<Longrightarrow> ''uri'' \<notin> set cl \<Longrightarrow>
   uri_field cs cl (Passed (SecretStr '''')) = Inl (ValueError ''Empty string!'')"
  by (simp add: uri_field_def not_empty_field_def)

lemma uri_field_nonempty:
  "get_secret_value s \<noteq> [] \<Longrightarrow> uri_field cs cl (Passed s) = Inr (VSecretStr s)"
  by (simp add: uri_field_def not_empty_field_def)

lemma uri_field_Inr:
  "uri_field cs cl (Passed s) = Inr v \<Longrightarrow> v = VSecretStr s"
  by (auto simp add: uri_field_def not_empty_field_def split: if_splits)

text \<open>
  C5. With \<^verbatim>\<open>uri\<close> outside the common field lists, constructing the connection
  config with an empty \<^verbatim>\<open>uri\<close> fails with a validation error that carries the
  validator's \<^verbatim>\<open>ValueError\<close>, whatever the credentials; with a non-empty
  \<^verbatim>\<open>uri\<close>, an empty \<^verbatim>\<open>user\<close> and an empty \<^verbatim>\<open>password\<close> are accepted and
  stored as they are.
\<close>

theorem empty_uri_rejected_empty_credentials_accepted:
  "''uri'' \<notin> set common_short_configs \<Longrightarrow> ''uri'' \<notin> set common_long_configs \<Longrightarrow>
   u \<noteq> [] \<Longrightarrow>
   MilvusConfig_init common_short_configs common_long_configs
       (Passed (SecretStr '''')) user_arg password_arg
     = Inl (ValidationError [(''uri'', ValueError ''Empty string!'')])
   \<and> MilvusConfig_init common_short_configs common_long_configs
       (Passed (SecretStr u)) (Passed '''') password_arg
     = Inr \<lparr>uri = VSecretStr (SecretStr u), user = VStr '''',
            password = (case password_arg of Passed s \<Rightarrow> VSecretStr s | _ \<Rightarrow> VNone)\<rparr>
   \<and> MilvusConfig_init common_short_configs common_long_configs
       (Passed (SecretStr u)) user_arg (Passed (SecretStr ''''))
     = Inr \<lparr>uri = VSecretStr (SecretStr u),
            user = (case user_arg of Passed s \<Rightarrow> VStr s | _ \<Rightarrow> VNone),
            password = VSecretStr (SecretStr '''')\<rparr>"
  by (simp add: MilvusConfig_init_def credentials_exempt uri_field_empty
      uri_field_nonempty MilvusConfig.defs)

theorem empty_uri_rejected_empty_credentials_accepted_witness:
  "''uri'' \<notin> set [''version'', ''db_label''] \<and> ''uri'' \<notin> set [''note'']
   \<and> ''http://localhost:19530'' \<noteq> []
   \<and> MilvusConfig_init [''version'', ''db_label''] [''note'']
        (Passed (SecretStr '''')) Omitted Omitted
      = Inl (ValidationError [(''uri'', ValueError ''Empty string!'')])
   \<and> MilvusConfig_init [''version'', ''db_label''] [''note'']
        (Passed (SecretStr ''http://localhost:19530'')) (Passed '''') Omitted
      = Inr \<lparr>uri = VSecretStr (SecretStr ''http://localhost:19530''), user = VStr '''',
             password = VNone\<rparr>
   \<and> MilvusConfig_init [''version'', ''db_label''] [''note'']
        (Passed (SecretStr ''http://localhost:19530'')) Omitted (Passed (SecretStr ''''))
      = Inr \<lparr>uri = VSecretStr (SecretStr ''http://localhost:19530''), user = VNone,
             password = VSecretStr (SecretStr '''')\<rparr>"
  using empty_uri_rejected_empty_credentials_accepted
          [of "[''version'', ''db_label'']" "[''note'']" "''http://localhost:19530''"
              Omitted Omitted]
  by simp

text \<open>
  On a connection config constructed with a \<^verbatim>\<open>uri\<close> keyword, \<^verbatim>\<open>to_dict()\<close>
  returns the unwrapped \<^verbatim>\<open>uri\<close> string, and \<^verbatim>\<open>None\<close> for \<^verbatim>\<open>user\<close> and for
  \<^verbatim>\<open>password\<close> both when the keyword was left out (or was \<^verbatim>\<open>None\<close>) and when it
  was the empty string; a non-empty credential is returned as its string.
\<close>

lemma to_dict_with_uri:
  "MilvusConfig_init common_short_configs common_long_configs
     (Passed s) user_arg password_arg = Inr c \<Longrightarrow>
   to_dict c =
     Inr [(''uri'', VStr (get_secret_value s)),
          (''user'', case user_arg of
                       Passed u \<Rightarrow> if u = [] then VNone else VStr u
                     | _ \<Rightarrow> VNone),
          (''password'', case password_arg of
                       Passed p \<Rightarrow> if get_secret_value p = [] then VNone
                                   else VStr (get_secret_value p)
                     | _ \<Rightarrow> VNone)]"
  by (auto simp add: MilvusConfig_init_def finish_Inr_iff field_Inr_iff credentials_exempt
      MilvusConfig.defs to_dict_def dest!: uri_field_Inr split: arg.splits)

lemma to_dict_with_uri_example:
  "MilvusConfig_init [''version'', ''db_label''] [''note'']
     (Passed (SecretStr ''http://localhost:19530'')) (Passed '''') (Passed (SecretStr ''''))
     = Inr \<lparr>uri = VSecretStr (SecretStr ''http://localhost:19530''), user = VStr '''',
            password = VSecretStr (SecretStr '''')\<rparr>
   \<and> to_dict \<lparr>uri = VSecretStr (SecretStr ''http://localhost:19530''), user = VStr '''',
            password = VSecretStr (SecretStr '''')\<rparr>
     = Inr [(''uri'', VStr ''http://localhost:19530''), (''user'', VNone),
            (''password'', VNone)]"
  using to_dict_with_uri
          [of "[''version'', ''db_label'']" "[''note'']"
              "SecretStr ''http://localhost:19530''" "Passed ''''" "Passed (SecretStr '''')"
              "\<lparr>uri = VSecretStr (SecretStr ''http://localhost:19530''), user = VStr '''',
                 password = VSecretStr (SecretStr '''')\<rparr>"]
  by (simp add: MilvusConfig_init_def uri_field_def user_field_def password_field_def
      not_empty_field_def MilvusConfig.defs)

text \<open>
  C9. The claim is that \<^verbatim>\<open>to_dict()\<close> returns a mapping with the unwrapped
  \<^verbatim>\<open>uri\<close> and with \<^verbatim>\<open>None\<close> for an absent or empty credential. The code does
  so when \<^verbatim>\<open>uri\<close> is passed (\<open>to_dict_with_uri\<close>), and not when it is left out:
  \<^verbatim>\<open>MilvusConfig()\<close> is constructed, its \<^verbatim>\<open>uri\<close> is the plain string of the
  class body (a default is not validated into a \<^verbatim>\<open>SecretStr\<close>), and
  \<^verbatim>\<open>to_dict()\<close> raises \<^verbatim>\<open>AttributeError\<close> on
  \<^verbatim>\<open>self.uri.get_secret_value()\<close>, with the credentials absent or empty alike.
\<close>

theorem to_dict_default_uri_raises:
  "MilvusConfig_init [''version'', ''db_label''] [''note''] Omitted Omitted Omitted
     = Inr \<lparr>uri = VStr ''http://localhost:19530'', user = VNone, password = VNone\<rparr>
   \<and> to_dict \<lparr>uri = VStr ''http://localhost:19530'', user = VNone, password = VNone\<rparr>
     = Inl (AttributeError ''get_secret_value'')
   \<and> MilvusConfig_init [''version'', ''db_label''] [''note''] Omitted (Passed '''') Omitted
     = Inr \<lparr>uri = VStr ''http://localhost:19530'', user = VStr '''', password = VNone\<rparr>
   \<and> to_dict \<lparr>uri = VStr ''http://localhost:19530'', user = VStr '''', password = VNone\<rparr>
     = Inl (AttributeError ''get_secret_value'')"
  by (simp add: MilvusConfig_init_def uri_field_def user_field_def password_field_def
      not_empty_field_def MilvusConfig.defs to_dict_def)

end
